theory Spec2Isabelle
  imports Complex_Main "HOL-Library.Code_Target_Numeral"
begin

section \<open>The page as the handlers of static/js/script.js see it\<close>

text \<open>
  The script registers six event handlers. Each of them reads and writes the document,
  and some of them talk to the server, open dialogs, start timers or navigate. All of that
  is made explicit here: a handler is a function from the state of the browser, and from
  what the outside world answers during the run (the user's answer to \<open>confirm\<close>, the
  fate of the \<open>fetch\<close>, the fate of \<open>execCommand\<close>), to a completion and the new state.

  What the model leaves out:
  \<^item> The document is the list of its elements in document order. An element stands for
    itself and its content; nesting is not modelled, and the markup assigned to
    \<open>innerHTML\<close> is kept as text, not parsed into elements.
  \<^item> A node held in a local variable of a handler is its position in that list. No
    handler inserts or removes a node in front of a position it still holds, so the
    position names the same node for as long as the variable is used.
  \<^item> A handler runs from start to end in one piece: nothing else touches the page while
    it waits for the server.
  \<^item> The registration of the handlers on \<open>DOMContentLoaded\<close> is left out; each handler
    is taken as it runs once it has been attached.
  \<^item> A \<open>string\<close> is the UTF-8 encoding of the JavaScript string, one \<open>char\<close> per byte.
    The handlers compare strings, join them and cut them at ASCII characters, which the
    encoding preserves; bytes that are not well-formed UTF-8 are not the text of any field.
  \<^item> The reply of the server has the shape the handlers read, a \<open>success\<close> flag and a
    \<open>message\<close>; \<open>success\<close> is the truthiness of \<open>result.success\<close> and
    \<open>message\<close> is \<open>result.message\<close> as the template literal renders it.
\<close>

subsection \<open>Elements\<close>

record element =
  tagName :: string
  attributes :: "(string \<times> string) list"
  classList :: "string set"
  val :: string
  innerHTML :: string

text \<open>\<open>getAttribute\<close> gives \<open>null\<close> (here \<open>None\<close>) for an attribute that is not there.\<close>

definition getAttribute :: "element \<Rightarrow> string \<Rightarrow> string option" where
  "getAttribute e name = map_of (attributes e) name"

text \<open>A template literal renders \<open>null\<close> as the four letters \<open>null\<close>.\<close>

definition template :: "string option \<Rightarrow> string" where
  "template v = (case v of None \<Rightarrow> ''null'' | Some s \<Rightarrow> s)"

subsection \<open>What a handler can do to the world\<close>

datatype js_error = TypeError | SyntaxError | NotFoundError | InvalidStateError

datatype completion = Normal | Thrown js_error

datatype js_number = NaN | PosInfinity | NegInfinity | Finite rat

datatype js_value = JSNull | JSNumber js_number | JSString string | JSObject "(string \<times> js_value) list"

datatype json = JNull | JNumber rat | JString string | JObject "(string \<times> json) list"

record request =
  url :: string
  http_method :: string
  headers :: "(string \<times> string) list"
  body :: json

datatype dialog = Confirm string | Alert string

datatype log_entry = ConsoleLog string "string option" | ConsoleError string js_error

datatype callback = HideCopiedMessage nat | ReloadPage

record browser =
  document :: "element list"
  defaultPrevented :: bool
  clipboard :: "string option"
  console :: "log_entry list"
  dialogs :: "dialog list"
  network :: "request list"
  timers :: "(nat \<times> callback) list"
  location :: string

text \<open>The reply to one \<open>fetch\<close> followed by \<open>response.json()\<close>: either of the two
  awaits may reject, or the second resolves to the result object.\<close>

record action_response =
  success :: bool
  message :: string

datatype fetch_outcome = FetchRejects | JsonRejects | Resolves action_response

subsection \<open>The document\<close>

fun find_index :: "('a \<Rightarrow> bool) \<Rightarrow> 'a list \<Rightarrow> nat option" where
  "find_index P [] = None"
| "find_index P (x # xs) = (if P x then Some 0 else map_option Suc (find_index P xs))"

text \<open>\<open>document.getElementById\<close>: the first element in document order that carries the id,
  or \<open>null\<close>.\<close>

definition getElementById :: "element list \<Rightarrow> string \<Rightarrow> nat option" where
  "getElementById doc i = find_index (\<lambda>e. getAttribute e ''id'' = Some i) doc"

definition set_innerHTML :: "nat \<Rightarrow> string \<Rightarrow> browser \<Rightarrow> browser" where
  "set_innerHTML r html w = w\<lparr>document := (document w)[r := (document w ! r)\<lparr>innerHTML := html\<rparr>]\<rparr>"

definition set_className :: "nat \<Rightarrow> string list \<Rightarrow> browser \<Rightarrow> browser" where
  "set_className r tokens w = w\<lparr>document := (document w)[r := (document w ! r)\<lparr>classList := set tokens\<rparr>]\<rparr>"

definition set_value :: "nat \<Rightarrow> string \<Rightarrow> browser \<Rightarrow> browser" where
  "set_value r v w = w\<lparr>document := (document w)[r := (document w ! r)\<lparr>val := v\<rparr>]\<rparr>"

definition classList_remove :: "nat \<Rightarrow> string \<Rightarrow> browser \<Rightarrow> browser" where
  "classList_remove r token w =
     w\<lparr>document := (document w)[r := (document w ! r)\<lparr>classList := classList (document w ! r) - {token}\<rparr>]\<rparr>"

definition remove_node :: "nat \<Rightarrow> browser \<Rightarrow> browser" where
  "remove_node r w = w\<lparr>document := take r (document w) @ drop (Suc r) (document w)\<rparr>"

subsection \<open>The rest of the platform\<close>

definition preventDefault :: "browser \<Rightarrow> browser" where
  "preventDefault w = w\<lparr>defaultPrevented := True\<rparr>"

definition console_log :: "string \<Rightarrow> string option \<Rightarrow> browser \<Rightarrow> browser" where
  "console_log label v w = w\<lparr>console := console w @ [ConsoleLog label v]\<rparr>"

definition console_error :: "string \<Rightarrow> js_error \<Rightarrow> browser \<Rightarrow> browser" where
  "console_error label err w = w\<lparr>console := console w @ [ConsoleError label err]\<rparr>"

definition alert :: "string \<Rightarrow> browser \<Rightarrow> browser" where
  "alert text w = w\<lparr>dialogs := dialogs w @ [Alert text]\<rparr>"

definition confirm :: "string \<Rightarrow> browser \<Rightarrow> browser" where
  "confirm text w = w\<lparr>dialogs := dialogs w @ [Confirm text]\<rparr>"

definition setTimeout :: "callback \<Rightarrow> nat \<Rightarrow> browser \<Rightarrow> browser" where
  "setTimeout cb ms w = w\<lparr>timers := timers w @ [(ms, cb)]\<rparr>"

text \<open>\<open>JSON.stringify\<close> on the values the handlers build: a number that is not finite is
  written as \<open>null\<close>. The body of a request is kept as the JSON value its text denotes.\<close>

fun JSON_stringify :: "js_value \<Rightarrow> json" where
  "JSON_stringify JSNull = JNull"
| "JSON_stringify (JSNumber n) = (case n of Finite q \<Rightarrow> JNumber q | _ \<Rightarrow> JNull)"
| "JSON_stringify (JSString s) = JString s"
| "JSON_stringify (JSObject props) = JObject (map (\<lambda>(k, v). (k, JSON_stringify v)) props)"

text \<open>\<open>fetch(url, {method: 'POST', headers: {'Content-Type': 'application/json'}, body})\<close>
  followed by \<open>response.json()\<close>. The request goes out in every case; a rejected
  \<open>fetch\<close> throws a \<open>TypeError\<close>, a body that is not JSON a \<open>SyntaxError\<close>.\<close>

definition post_json :: "string \<Rightarrow> json \<Rightarrow> request" where
  "post_json u b =
     \<lparr>url = u, http_method = ''POST'', headers = [(''Content-Type'', ''application/json'')], body = b\<rparr>"

definition fetch_json :: "fetch_outcome \<Rightarrow> string \<Rightarrow> json \<Rightarrow> browser \<Rightarrow> (js_error + action_response) \<times> browser" where
  "fetch_json net u b w =
     (let w' = w\<lparr>network := network w @ [post_json u b]\<rparr>
      in case net of
           FetchRejects \<Rightarrow> (Inl TypeError, w')
         | JsonRejects \<Rightarrow> (Inl SyntaxError, w')
         | Resolves result \<Rightarrow> (Inr result, w'))"

subsection \<open>\<open>parseInt\<close> and \<open>parseFloat\<close>\<close>

text \<open>Both trim the white space and line terminators at the start of the string, take a
  sign, and read the longest prefix that is a numeral; with no such prefix the result is
  \<open>NaN\<close>. Otherwise the result is the Number value of what was read, that is, its
  mathematical value rounded to binary64.\<close>

text \<open>The characters that ECMAScript trims (\<open>WhiteSpace\<close> and \<open>LineTerminator\<close>), each in
  its UTF-8 bytes: tab, line feed, vertical tab, form feed, carriage return, space; U+00A0;
  U+1680; U+2000 to U+200A; U+2028, U+2029, U+202F; U+205F; U+3000; U+FEFF. The no-break
  space U+00A0 is the two bytes \<open>C2 A0\<close>; the byte \<open>A0\<close> alone is no character.\<close>

definition StrWhiteSpaceChar :: "string list" where
  "StrWhiteSpaceChar =
     [[CHR 0x09], [CHR 0x0A], [CHR 0x0B], [CHR 0x0C], [CHR 0x0D], [CHR 0x20],
      [CHR 0xC2, CHR 0xA0],
      [CHR 0xE1, CHR 0x9A, CHR 0x80],
      [CHR 0xE2, CHR 0x80, CHR 0x80], [CHR 0xE2, CHR 0x80, CHR 0x81], [CHR 0xE2, CHR 0x80, CHR 0x82],
      [CHR 0xE2, CHR 0x80, CHR 0x83], [CHR 0xE2, CHR 0x80, CHR 0x84], [CHR 0xE2, CHR 0x80, CHR 0x85],
      [CHR 0xE2, CHR 0x80, CHR 0x86], [CHR 0xE2, CHR 0x80, CHR 0x87], [CHR 0xE2, CHR 0x80, CHR 0x88],
      [CHR 0xE2, CHR 0x80, CHR 0x89], [CHR 0xE2, CHR 0x80, CHR 0x8A],
      [CHR 0xE2, CHR 0x80, CHR 0xA8], [CHR 0xE2, CHR 0x80, CHR 0xA9], [CHR 0xE2, CHR 0x80, CHR 0xAF],
      [CHR 0xE2, CHR 0x81, CHR 0x9F],
      [CHR 0xE3, CHR 0x80, CHR 0x80],
      [CHR 0xEF, CHR 0xBB, CHR 0xBF]]"

text \<open>How many bytes of white space the string starts with: the length of the one character
  of the table that is a prefix, or 0.\<close>

definition leading_white :: "string \<Rightarrow> nat" where
  "leading_white s =
     (case find (\<lambda>u. take (length u) s = u) StrWhiteSpaceChar of
        None \<Rightarrow> 0
      | Some u \<Rightarrow> length u)"

fun trim_start :: "string \<Rightarrow> string" where
  "trim_start [] = []"
| "trim_start (c # s) =
     (if leading_white (c # s) = 0 then c # s
      else trim_start (drop (leading_white (c # s) - 1) s))"

definition digit_table :: "(char \<times> nat) list" where
  "digit_table =
     [(CHR ''0'', 0), (CHR ''1'', 1), (CHR ''2'', 2), (CHR ''3'', 3), (CHR ''4'', 4),
      (CHR ''5'', 5), (CHR ''6'', 6), (CHR ''7'', 7), (CHR ''8'', 8), (CHR ''9'', 9),
      (CHR ''a'', 10), (CHR ''b'', 11), (CHR ''c'', 12), (CHR ''d'', 13), (CHR ''e'', 14), (CHR ''f'', 15),
      (CHR ''A'', 10), (CHR ''B'', 11), (CHR ''C'', 12), (CHR ''D'', 13), (CHR ''E'', 14), (CHR ''F'', 15)]"

definition digit_value :: "nat \<Rightarrow> char \<Rightarrow> nat option" where
  "digit_value R c = (case map_of digit_table c of
                        Some d \<Rightarrow> (if d < R then Some d else None)
                      | None \<Rightarrow> None)"

definition is_digit :: "nat \<Rightarrow> char \<Rightarrow> bool" where
  "is_digit R c = (digit_value R c \<noteq> None)"

definition digits_value :: "nat \<Rightarrow> string \<Rightarrow> nat" where
  "digits_value R Z = foldl (\<lambda>acc c. acc * R + (case digit_value R c of Some d \<Rightarrow> d | None \<Rightarrow> 0)) 0 Z"

text \<open>The Number value of a mathematical value: the nearest binary64, ties to the even
  significand, \<open>Infinity\<close> from \<open>2 ^ 1024\<close> on. \<open>floor_log2 a\<close> is the \<open>e\<close> with
  \<open>2 ^ e \<le> a < 2 ^ (e + 1)\<close>; below \<open>2 ^ - 1022\<close> the spacing stays that of the
  subnormals, \<open>2 ^ - 1074\<close>. The two zeros are not told apart: \<open>JSON.stringify\<close> writes
  both as \<open>0\<close>. The numerals are read exactly, as the engines do (the standard would let an
  implementation drop digits after the twentieth).\<close>

fun bit_length :: "nat \<Rightarrow> nat" where
  "bit_length n = (if n = 0 then 0 else Suc (bit_length (n div 2)))"

definition floor_log2 :: "rat \<Rightarrow> int" where
  "floor_log2 a =
     (if 1 \<le> a then int (bit_length (nat \<lfloor>a\<rfloor>)) - 1
      else - int (bit_length (nat (\<lceil>1 / a\<rceil> - 1))))"

definition pow2 :: "int \<Rightarrow> rat" where
  "pow2 e = (if 0 \<le> e then 2 ^ nat e else 1 / 2 ^ nat (- e))"

definition round_half_even :: "rat \<Rightarrow> int" where
  "round_half_even y =
     (let f = \<lfloor>y\<rfloor>; d = y - of_int f
      in if d < 1 / 2 then f
         else if 1 / 2 < d then f + 1
         else if even f then f else f + 1)"

definition Number_value :: "rat \<Rightarrow> js_number" where
  "Number_value x =
     (if x = 0 then Finite 0
      else
        (let a = \<bar>x\<bar>;
             ulp = pow2 (max (floor_log2 a) (- 1022) - 52);
             r = of_int (round_half_even (a / ulp)) * ulp
         in if pow2 1024 \<le> r then (if x < 0 then NegInfinity else PosInfinity)
            else Finite (if x < 0 then - r else r)))"

definition parseInt :: "string \<Rightarrow> js_number" where
  "parseInt inputString =
     (let S = trim_start inputString;
          sign = (if take 1 S = ''-'' then - 1 else (1::int));
          S = (if take 1 S = ''+'' \<or> take 1 S = ''-'' then drop 1 S else S);
          R = (if take 2 S = ''0x'' \<or> take 2 S = ''0X'' then 16 else 10);
          S = (if take 2 S = ''0x'' \<or> take 2 S = ''0X'' then drop 2 S else S);
          Z = takeWhile (is_digit R) S
      in if Z = [] then NaN else Number_value (of_int (sign * int (digits_value R Z))))"

text \<open>The exponent part of a decimal literal counts only when digits follow the \<open>e\<close>
  and its optional sign.\<close>

definition exponent_part :: "string \<Rightarrow> int" where
  "exponent_part S =
     (if take 1 S = ''e'' \<or> take 1 S = ''E'' then
        (let T = drop 1 S;
             esign = (if take 1 T = ''-'' then - 1 else (1::int));
             T = (if take 1 T = ''+'' \<or> take 1 T = ''-'' then drop 1 T else T);
             E = takeWhile (is_digit 10) T
         in if E = [] then 0 else esign * int (digits_value 10 E))
      else 0)"

definition scale10 :: "int \<Rightarrow> int \<Rightarrow> rat" where
  "scale10 m e = (if 0 \<le> e then of_int m * 10 ^ nat e else of_int m / 10 ^ nat (- e))"

definition parseFloat :: "string \<Rightarrow> js_number" where
  "parseFloat inputString =
     (let S = trim_start inputString;
          sign = (if take 1 S = ''-'' then - 1 else (1::int));
          S = (if take 1 S = ''+'' \<or> take 1 S = ''-'' then drop 1 S else S)
      in if take 8 S = ''Infinity'' then (if sign < 0 then NegInfinity else PosInfinity)
         else
           (let I = takeWhile (is_digit 10) S;
                S = dropWhile (is_digit 10) S;
                F = (if take 1 S = ''.'' then takeWhile (is_digit 10) (drop 1 S) else []);
                S = (if take 1 S = ''.'' then dropWhile (is_digit 10) (drop 1 S) else S)
            in if I = [] \<and> F = [] then NaN
               else Number_value (scale10 (sign * int (digits_value 10 (I @ F)))
                                          (exponent_part S - int (length F)))))"

section \<open>The handlers\<close>

subsection \<open>Booking form submission (script.js, lines 91 to 137)\<close>



definition alert_success :: "string \<Rightarrow> string" where
  "alert_success msg = ''<div class=\"alert alert-success rounded-pill\" role=\"alert\">'' @ msg @ ''</div>''"

definition alert_danger :: "string \<Rightarrow> string" where
  "alert_danger msg = ''<div class=\"alert alert-danger rounded-pill\" role=\"alert\">'' @ msg @ ''</div>''"

definition unexpected_error :: string where
  "unexpected_error = alert_danger ''An unexpected error occurred.''"

text \<open>Setting \<open>.value\<close> on what \<open>getElementById\<close> returned throws a \<open>TypeError\<close> when
  it returned \<open>null\<close>.\<close>

definition clear_value_by_id :: "string \<Rightarrow> browser \<Rightarrow> completion \<times> browser" where
  "clear_value_by_id i w =
     (case getElementById (document w) i of
        None \<Rightarrow> (Thrown TypeError, w)
      | Some r \<Rightarrow> (Normal, set_value r [] w))"



subsection \<open>Review form submission (script.js, lines 42 to 85)\<close>

definition review_spinner :: string where
  "review_spinner = ''<div class=\"spinner-border text-primary\" role=\"status\"><span class=\"visually-hidden\">Loading...</span></div> Submitting review...''"

text \<open>The body of the \<open>try\<close> block, lines 54 to 79.\<close>

definition reviewForm_try :: "fetch_outcome \<Rightarrow> string \<Rightarrow> string \<Rightarrow> string \<Rightarrow> nat \<Rightarrow> browser \<Rightarrow> completion \<times> browser" where
  "reviewForm_try net serviceId rating comment reviewMessageDiv w =
     (case fetch_json net ''/submit_review''
             (JSON_stringify (JSObject [(''service_id'', JSNumber (parseInt serviceId)),
                                        (''rating'', JSNumber (parseFloat rating)),
                                        (''comment'', JSString comment)])) w of
        (Inl error, w) \<Rightarrow> (Thrown error, w)
      | (Inr result, w) \<Rightarrow>
          if success result then
            (let w = set_innerHTML reviewMessageDiv (alert_success (message result)) w;
                 w = set_className reviewMessageDiv [''mt-3''] w
             in case clear_value_by_id ''reviewRating'' w of
                  (Thrown error, w) \<Rightarrow> (Thrown error, w)
                | (Normal, w) \<Rightarrow>
                    (case clear_value_by_id ''reviewComment'' w of
                       (Thrown error, w) \<Rightarrow> (Thrown error, w)
                     | (Normal, w) \<Rightarrow> (Normal, setTimeout ReloadPage 1500 w)))
          else
            (let w = set_innerHTML reviewMessageDiv (alert_danger (message result)) w;
                 w = set_className reviewMessageDiv [''mt-3''] w
             in (Normal, w)))"

definition reviewForm_submit :: "fetch_outcome \<Rightarrow> browser \<Rightarrow> completion \<times> browser" where
  "reviewForm_submit net w0 =
     (let w = preventDefault w0 in
      case getElementById (document w) ''serviceIdReview'' of None \<Rightarrow> (Thrown TypeError, w) | Some s \<Rightarrow>
      case getElementById (document w) ''reviewRating'' of None \<Rightarrow> (Thrown TypeError, w) | Some r \<Rightarrow>
      case getElementById (document w) ''reviewComment'' of None \<Rightarrow> (Thrown TypeError, w) | Some c \<Rightarrow>
      (let serviceId = val (document w ! s);
           rating = val (document w ! r);
           comment = val (document w ! c)
       in case getElementById (document w) ''reviewMessage'' of
            None \<Rightarrow> (Thrown TypeError, w)
          | Some reviewMessageDiv \<Rightarrow>
              (let w = set_innerHTML reviewMessageDiv review_spinner w;
                   w = set_className reviewMessageDiv [''mt-3'', ''text-center''] w
               in case reviewForm_try net serviceId rating comment reviewMessageDiv w of
                    (Thrown error, w) \<Rightarrow>
                      (let w = console_error ''Error submitting review:'' error w;
                           w = set_innerHTML reviewMessageDiv unexpected_error w;
                           w = set_className reviewMessageDiv [''mt-3''] w
                       in (Normal, w))
                  | (Normal, w) \<Rightarrow> (Normal, w))))"

subsection \<open>Removing a booking, removing a user (script.js, lines 143 to 172 and 178 to 207)\<close>

text \<open>An attribute that is missing reads as \<open>null\<close> and is sent as \<open>null\<close>.\<close>

definition attribute_value :: "string option \<Rightarrow> js_value" where
  "attribute_value v = (case v of None \<Rightarrow> JSNull | Some s \<Rightarrow> JSString s)"

text \<open>\<open>rowToRemove.remove()\<close> under \<open>if (rowToRemove)\<close>.\<close>

definition remove_row :: "string \<Rightarrow> browser \<Rightarrow> browser" where
  "remove_row i w = (case getElementById (document w) i of None \<Rightarrow> w | Some rowToRemove \<Rightarrow> remove_node rowToRemove w)"

definition remove_booking_try :: "fetch_outcome \<Rightarrow> string option \<Rightarrow> browser \<Rightarrow> completion \<times> browser" where
  "remove_booking_try net bookingId w =
     (case fetch_json net ''/remove_booking''
             (JSON_stringify (JSObject [(''booking_id'', attribute_value bookingId)])) w of
        (Inl error, w) \<Rightarrow> (Thrown error, w)
      | (Inr result, w) \<Rightarrow>
          if success result then
            (Normal, remove_row (''booking-row-'' @ template bookingId) (alert (message result) w))
          else (Normal, alert (''Error: '' @ message result) w))"

definition remove_booking_click :: "bool \<Rightarrow> fetch_outcome \<Rightarrow> element \<Rightarrow> browser \<Rightarrow> completion \<times> browser" where
  "remove_booking_click answer net this w0 =
     (let bookingId = getAttribute this ''data-booking-id'';
          w = confirm (''Are you sure you want to remove booking ID: '' @ template bookingId @ ''?'') w0
      in if answer then
           (case remove_booking_try net bookingId w of
              (Thrown error, w) \<Rightarrow>
                (let w = console_error ''Error removing booking:'' error w;
                     w = alert ''An error occurred while trying to remove the booking.'' w
                 in (Normal, w))
            | (Normal, w) \<Rightarrow> (Normal, w))
         else (Normal, w))"

definition remove_user_try :: "fetch_outcome \<Rightarrow> string option \<Rightarrow> browser \<Rightarrow> completion \<times> browser" where
  "remove_user_try net userId w =
     (case fetch_json net ''/remove_user''
             (JSON_stringify (JSObject [(''user_id'', attribute_value userId)])) w of
        (Inl error, w) \<Rightarrow> (Thrown error, w)
      | (Inr result, w) \<Rightarrow>
          if success result then
            (Normal, remove_row (''user-row-'' @ template userId) (alert (message result) w))
          else (Normal, alert (''Error: '' @ message result) w))"

definition remove_user_click :: "bool \<Rightarrow> fetch_outcome \<Rightarrow> element \<Rightarrow> browser \<Rightarrow> completion \<times> browser" where
  "remove_user_click answer net this w0 =
     (let userId = getAttribute this ''data-user-id'';
          w = confirm (''Are you sure you want to remove user ID: '' @ template userId @
                       '' and all their associated data (reviews, bookings)? This action cannot be undone.'') w0
      in if answer then
           (case remove_user_try net userId w of
              (Thrown error, w) \<Rightarrow>
                (let w = console_error ''Error removing user:'' error w;
                     w = alert ''An error occurred while trying to remove the user.'' w
                 in (Normal, w))
            | (Normal, w) \<Rightarrow> (Normal, w))
         else (Normal, w))"

subsection \<open>Deleting one's own account (script.js, lines 213 to 237)\<close>

definition deleteMyAccount_try :: "fetch_outcome \<Rightarrow> browser \<Rightarrow> completion \<times> browser" where
  "deleteMyAccount_try net w =
     (case fetch_json net ''/delete_my_account'' (JSON_stringify (JSObject [])) w of
        (Inl error, w) \<Rightarrow> (Thrown error, w)
      | (Inr result, w) \<Rightarrow>
          if success result then
            (Normal, (alert (message result) w)\<lparr>location := ''/welcome''\<rparr>)
          else (Normal, alert (''Error: '' @ message result) w))"

definition deleteMyAccount_click :: "bool \<Rightarrow> fetch_outcome \<Rightarrow> browser \<Rightarrow> completion \<times> browser" where
  "deleteMyAccount_click answer net w0 =
     (let w = confirm ''Are you sure you want to delete your account? This will remove all your reviews and bookings and cannot be undone.'' w0
      in if answer then
           (case deleteMyAccount_try net w of
              (Thrown error, w) \<Rightarrow>
                (let w = console_error ''Error deleting my account:'' error w;
                     w = alert ''An error occurred while trying to delete your account.'' w
                 in (Normal, w))
            | (Normal, w) \<Rightarrow> (Normal, w))
         else (Normal, w))"

subsection \<open>Copying a contact number (script.js, lines 8 to 36)\<close>

text \<open>\<open>s.split(c)\<close> for a separator of one character: never empty, \<open>.split(c)\<close> is \<open>[]\<close>.\<close>

fun split :: "char \<Rightarrow> string \<Rightarrow> string list" where
  "split c [] = [[]]"
| "split c (x # xs) =
     (if x = c then [] # split c xs
      else (case split c xs of [] \<Rightarrow> [[x]] | y # ys \<Rightarrow> (x # y) # ys))"

text \<open>\<open>targetId.split('-')[1] || 'detail'\<close>: an index out of range reads \<open>undefined\<close>, and
  both \<open>undefined\<close> and the empty string are falsy.\<close>

definition target_suffix :: "string \<Rightarrow> string" where
  "target_suffix targetId =
     (case split (CHR ''-'') targetId of
        _ # s # _ \<Rightarrow> (if s = [] then ''detail'' else s)
      | _ \<Rightarrow> ''detail'')"

text \<open>\<open>document.execCommand('copy')\<close> either throws or returns whether the selection, here
  the text of the node that \<open>select()\<close> was called on, went to the clipboard.\<close>

datatype exec_outcome = ExecThrows js_error | ExecReturns bool

definition createElement :: "string \<Rightarrow> element" where
  "createElement name = \<lparr>tagName = name, attributes = [], classList = {}, val = [], innerHTML = []\<rparr>"

text \<open>Assigning \<open>null\<close> to the \<open>value\<close> of a textarea stores the empty string.\<close>

definition textarea_value :: "string option \<Rightarrow> string" where
  "textarea_value v = (case v of None \<Rightarrow> [] | Some s \<Rightarrow> s)"

definition removeChild :: "nat \<Rightarrow> browser \<Rightarrow> completion \<times> browser" where
  "removeChild r w = (if r < length (document w) then (Normal, remove_node r w) else (Thrown NotFoundError, w))"

text \<open>The \<open>try\<close> block with its \<open>catch\<close>, lines 19 to 33.\<close>

definition copy_contact_try :: "exec_outcome \<Rightarrow> string option \<Rightarrow> nat option \<Rightarrow> nat \<Rightarrow> browser \<Rightarrow> browser" where
  "copy_contact_try exec contactNumber copiedMessageSpan tempTextArea w =
     (case exec of
        ExecThrows err \<Rightarrow> console_error ''Failed to copy contact number:'' err w
      | ExecReturns copied \<Rightarrow>
          (let w = (if copied then w\<lparr>clipboard := Some (val (document w ! tempTextArea))\<rparr> else w);
               w = console_log ''Contact number copied:'' contactNumber w
           in case copiedMessageSpan of
                None \<Rightarrow> w
              | Some shown \<Rightarrow> setTimeout (HideCopiedMessage shown) 2000 (classList_remove shown ''d-none'' w)))"

definition copy_contact_click :: "exec_outcome \<Rightarrow> element \<Rightarrow> browser \<Rightarrow> completion \<times> browser" where
  "copy_contact_click exec this w0 =
     (let contactNumber = getAttribute this ''data-contact'' in
      case getAttribute this ''data-target'' of
        None \<Rightarrow> (Thrown TypeError, w0)
      | Some targetId \<Rightarrow>
          (let copiedMessageSpan = getElementById (document w0) (''copied-message-'' @ target_suffix targetId);
               tempTextArea = length (document w0);
               w = w0\<lparr>document := document w0 @ [(createElement ''textarea'')\<lparr>val := textarea_value contactNumber\<rparr>]\<rparr>;
               w = copy_contact_try exec contactNumber copiedMessageSpan tempTextArea w
           in removeChild tempTextArea w))"

section \<open>Reading the page, and pages to run the handlers on\<close>

text \<open>\<open>document.getElementById(i)\<close> as the element itself, to state what a field holds.\<close>

definition element_by_id :: "browser \<Rightarrow> string \<Rightarrow> element option" where
  "element_by_id w i = map_option (\<lambda>r. document w ! r) (getElementById (document w) i)"

text \<open>The elements a handler expects from the page templates.\<close>

definition has_elements :: "browser \<Rightarrow> string list \<Rightarrow> bool" where
  "has_elements w ids = list_all (\<lambda>i. getElementById (document w) i \<noteq> None) ids"

definition booking_fields :: "string list" where
  "booking_fields = [''serviceIdBooking'', ''bookingDate'', ''bookingNotes'', ''bookingMessage'']"

definition review_fields :: "string list" where
  "review_fields = [''serviceIdReview'', ''reviewRating'', ''reviewComment'', ''reviewMessage'']"

definition html_element :: "string \<Rightarrow> string \<Rightarrow> string \<Rightarrow> element" where
  "html_element name i v = \<lparr>tagName = name, attributes = [(''id'', i)], classList = {}, val = v, innerHTML = []\<rparr>"

definition fresh_page :: "element list \<Rightarrow> browser" where
  "fresh_page doc =
     \<lparr>document = doc, defaultPrevented = False, clipboard = None, console = [], dialogs = [],
      network = [], timers = [], location = ''/service/7''\<rparr>"


definition review_page :: "string \<Rightarrow> string \<Rightarrow> string \<Rightarrow> browser" where
  "review_page serviceId rating comment =
     fresh_page [html_element ''input'' ''serviceIdReview'' serviceId,
                 html_element ''select'' ''reviewRating'' rating,
                 html_element ''textarea'' ''reviewComment'' comment,
                 html_element ''div'' ''reviewMessage'' []]"

definition bookings_page :: browser where
  "bookings_page =
     fresh_page [html_element ''tr'' ''booking-row-4'' [],
                 html_element ''tr'' ''booking-row-5'' [],
                 html_element ''tr'' ''booking-row-6'' []]"

definition users_page :: browser where
  "users_page =
     fresh_page [html_element ''tr'' ''user-row-1'' [],
                 html_element ''tr'' ''user-row-2'' []]"

definition contacts_page :: browser where
  "contacts_page =
     fresh_page [(html_element ''span'' ''copied-message-1'' [])\<lparr>classList := {''d-none''}\<rparr>,
                 html_element ''p'' ''contact-1'' []]"

definition button :: "(string \<times> string) list \<Rightarrow> element" where
  "button attrs = \<lparr>tagName = ''button'', attributes = attrs, classList = {}, val = [], innerHTML = []\<rparr>"

definition thanks :: action_response where
  "thanks = \<lparr>success = True, message = ''Thanks''\<rparr>"

text \<open>The field values a handler reads at the start.\<close>

definition value_of :: "browser \<Rightarrow> string \<Rightarrow> string option" where
  "value_of w i = map_option val (element_by_id w i)"

text \<open>
  What it is for a field to start with a number, written from the grammar of ECMAScript and
  not from the parsers above. White space is any run of the code points that the standard
  lists as \<open>WhiteSpace\<close> or \<open>LineTerminator\<close>, encoded in UTF-8. After white space and
  one optional sign, an integer starts with a decimal digit, or with \<open>0x\<close> and a
  hexadecimal digit; a decimal starts with \<open>Infinity\<close>, with a decimal digit, or with a
  dot and a decimal digit.
\<close>

definition white_code_points :: "nat list" where
  "white_code_points =
     [0x0009, 0x000A, 0x000B, 0x000C, 0x000D, 0x0020, 0x00A0, 0x1680,
      0x2000, 0x2001, 0x2002, 0x2003, 0x2004, 0x2005, 0x2006, 0x2007, 0x2008, 0x2009, 0x200A,
      0x2028, 0x2029, 0x202F, 0x205F, 0x3000, 0xFEFF]"

definition utf8 :: "nat \<Rightarrow> string" where
  "utf8 cp =
     (if cp < 0x80 then [char_of cp]
      else if cp < 0x800 then [char_of (0xC0 + cp div 0x40), char_of (0x80 + cp mod 0x40)]
      else if cp < 0x10000 then
        [char_of (0xE0 + cp div 0x1000), char_of (0x80 + cp div 0x40 mod 0x40),
         char_of (0x80 + cp mod 0x40)]
      else
        [char_of (0xF0 + cp div 0x40000), char_of (0x80 + cp div 0x1000 mod 0x40),
         char_of (0x80 + cp div 0x40 mod 0x40), char_of (0x80 + cp mod 0x40)])"

definition white_space :: "string \<Rightarrow> bool" where
  "white_space ws = (\<exists>cps. set cps \<subseteq> set white_code_points \<and> ws = concat (map utf8 cps))"

definition decimal_digit :: "char \<Rightarrow> bool" where
  "decimal_digit c = (c \<in> set ''0123456789'')"

definition hex_digit :: "char \<Rightarrow> bool" where
  "hex_digit c = (c \<in> set ''0123456789abcdefABCDEF'')"

definition integer_start :: "string \<Rightarrow> bool" where
  "integer_start t =
     (if take 2 t = ''0x'' \<or> take 2 t = ''0X''
      then (case drop 2 t of [] \<Rightarrow> False | d # _ \<Rightarrow> hex_digit d)
      else (case t of [] \<Rightarrow> False | d # _ \<Rightarrow> decimal_digit d))"

definition decimal_start :: "string \<Rightarrow> bool" where
  "decimal_start t =
     (take 8 t = ''Infinity'' \<or>
      (case t of [] \<Rightarrow> False | d # _ \<Rightarrow> decimal_digit d) \<or>
      (case t of p # d # _ \<Rightarrow> p = CHR ''.'' \<and> decimal_digit d | _ \<Rightarrow> False))"

definition after_white_space_and_sign :: "(string \<Rightarrow> bool) \<Rightarrow> string \<Rightarrow> bool" where
  "after_white_space_and_sign P s =
     (\<exists>ws sgn t. s = ws @ sgn @ t \<and> white_space ws \<and> (sgn = [] \<or> sgn = ''+'' \<or> sgn = ''-'') \<and> P t)"

definition starts_integer :: "string \<Rightarrow> bool" where
  "starts_integer s = after_white_space_and_sign integer_start s"

definition starts_decimal :: "string \<Rightarrow> bool" where
  "starts_decimal s = after_white_space_and_sign decimal_start s"




definition booking_row :: "element \<Rightarrow> string" where
  "booking_row this = ''booking-row-'' @ template (getAttribute this ''data-booking-id'')"

definition user_row :: "element \<Rightarrow> string" where
  "user_row this = ''user-row-'' @ template (getAttribute this ''data-user-id'')"

section \<open>Facts about the document\<close>

lemma find_index_Some_iff:
  "find_index P xs = Some i \<longleftrightarrow> i < length xs \<and> P (xs ! i) \<and> (\<forall>j<i. \<not> P (xs ! j))"
proof (induction xs arbitrary: i)
  case Nil
  then show ?case by simp
next
  case (Cons x xs)
  show ?case
  proof (cases "P x")
    case True
    then show ?thesis by (cases i) auto
  next
    case False
    show ?thesis
    proof (cases i)
      case 0
      with False show ?thesis by auto
    next
      case (Suc k)
      have "(\<forall>j<Suc k. \<not> P ((x # xs) ! j)) \<longleftrightarrow> (\<forall>j<k. \<not> P (xs ! j))"
        using False by (auto simp: less_Suc_eq_0_disj)
      with False Suc Cons.IH [of k] show ?thesis by auto
    qed
  qed
qed

lemma find_index_list_update:
  "P y = P (xs ! r) \<Longrightarrow> find_index P (xs[r := y]) = find_index P xs"
proof (induction xs arbitrary: r)
  case Nil
  then show ?case by simp
next
  case (Cons x xs)
  then show ?case by (cases r) auto
qed

lemma getElementById_bound: "getElementById doc i = Some r \<Longrightarrow> r < length doc"
  by (simp add: getElementById_def find_index_Some_iff)

lemma getElementById_id: "getElementById doc i = Some r \<Longrightarrow> getAttribute (doc ! r) ''id'' = Some i"
  by (simp add: getElementById_def find_index_Some_iff)


lemma getElementById_list_update [simp]:
  "getAttribute e ''id'' = getAttribute (doc ! r) ''id'' \<Longrightarrow>
   getElementById (doc[r := e]) i = getElementById doc i"
  unfolding getElementById_def by (rule find_index_list_update) simp

lemma getAttribute_frame [simp]:
  "getAttribute (e\<lparr>innerHTML := h\<rparr>) n = getAttribute e n"
  "getAttribute (e\<lparr>classList := c\<rparr>) n = getAttribute e n"
  "getAttribute (e\<lparr>val := v\<rparr>) n = getAttribute e n"
  by (simp_all add: getAttribute_def)

lemmas platform_defs =
  set_innerHTML_def set_className_def set_value_def classList_remove_def remove_node_def
  preventDefault_def console_log_def console_error_def alert_def confirm_def setTimeout_def
  fetch_json_def clear_value_by_id_def

lemmas page_defs =
  has_elements_def element_by_id_def getElementById_def getAttribute_def
  html_element_def fresh_page_def booking_fields_def review_fields_def

section \<open>What the two forms do\<close>









lemma reviewForm_submit_sends:
  "network (snd (reviewForm_submit net w)) = network w @
     (if has_elements w review_fields then
        [post_json ''/submit_review''
           (JObject [(''service_id'', JSON_stringify (JSNumber (parseInt (the (value_of w ''serviceIdReview''))))),
                     (''rating'', JSON_stringify (JSNumber (parseFloat (the (value_of w ''reviewRating''))))),
                     (''comment'', JString (the (value_of w ''reviewComment'')))])]
      else [])"
  by (cases net)
     (auto simp add: reviewForm_submit_def reviewForm_try_def platform_defs Let_def has_elements_def
        review_fields_def value_of_def element_by_id_def split: option.splits prod.splits completion.splits sum.splits)









section \<open>What the removal handlers do\<close>

lemma remove_booking_click_declined:
  "remove_booking_click False net this w =
     (Normal, confirm (''Are you sure you want to remove booking ID: '' @ template (getAttribute this ''data-booking-id'') @ ''?'') w)"
  by (simp add: remove_booking_click_def Let_def)

lemma remove_user_click_declined:
  "remove_user_click False net this w =
     (Normal, confirm (''Are you sure you want to remove user ID: '' @ template (getAttribute this ''data-user-id'') @
                       '' and all their associated data (reviews, bookings)? This action cannot be undone.'') w)"
  by (simp add: remove_user_click_def Let_def)

lemma deleteMyAccount_click_declined:
  "deleteMyAccount_click False net w =
     (Normal, confirm ''Are you sure you want to delete your account? This will remove all your reviews and bookings and cannot be undone.'' w)"
  by (simp add: deleteMyAccount_click_def Let_def)

text \<open>
  C3. When the user declines the confirmation, each of the three removal handlers (booking,
  user, own account) sends nothing and leaves the document as it was.
\<close>

theorem declined_removal_leaves_everything:
  "network (snd (remove_booking_click False net this w)) = network w \<and>
   document (snd (remove_booking_click False net this w)) = document w \<and>
   network (snd (remove_user_click False net this w)) = network w \<and>
   document (snd (remove_user_click False net this w)) = document w \<and>
   network (snd (deleteMyAccount_click False net w)) = network w \<and>
   document (snd (deleteMyAccount_click False net w)) = document w"
  by (simp add: remove_booking_click_declined remove_user_click_declined
        deleteMyAccount_click_declined confirm_def)




lemma remove_booking_click_success:
  assumes "success result"
  shows "remove_booking_click True (Resolves result) this w =
     (Normal, remove_row (booking_row this)
        (w\<lparr>network := network w @ [post_json ''/remove_booking''
                    (JObject [(''booking_id'', JSON_stringify (attribute_value (getAttribute this ''data-booking-id'')))])],
           dialogs := dialogs w @
                  [Confirm (''Are you sure you want to remove booking ID: '' @ template (getAttribute this ''data-booking-id'') @ ''?''),
                   Alert (message result)]\<rparr>))"
  using assms by (simp add: remove_booking_click_def remove_booking_try_def platform_defs Let_def booking_row_def)

lemma remove_user_click_success:
  assumes "success result"
  shows "remove_user_click True (Resolves result) this w =
     (Normal, remove_row (user_row this)
        (w\<lparr>network := network w @ [post_json ''/remove_user''
                    (JObject [(''user_id'', JSON_stringify (attribute_value (getAttribute this ''data-user-id'')))])],
           dialogs := dialogs w @
                  [Confirm (''Are you sure you want to remove user ID: '' @ template (getAttribute this ''data-user-id'') @
                       '' and all their associated data (reviews, bookings)? This action cannot be undone.''),
                   Alert (message result)]\<rparr>))"
  using assms by (simp add: remove_user_click_def remove_user_try_def platform_defs Let_def user_row_def)

lemma remove_row_found:
  assumes "getElementById (document w) i = Some r"
  shows "r < length (document w) \<and> getAttribute (document w ! r) ''id'' = Some i \<and>
         document (remove_row i w) = take r (document w) @ drop (Suc r) (document w)"
  using assms getElementById_bound [OF assms] getElementById_id [OF assms]
  by (simp add: remove_row_def remove_node_def)

lemma remove_row_missing:
  "getElementById (document w) i = None \<Longrightarrow> remove_row i w = w"
  by (simp add: remove_row_def)

text \<open>
  C4. A confirmed removal of a booking or of a user that the server answers with
  \<open>success\<close> true, on a page where \<open>getElementById\<close> finds the row \<open>booking-row-<id>\<close>
  (or \<open>user-row-<id>\<close>) at position \<open>r\<close>: the document afterwards is the document before
  with exactly that one element taken out. It carries the id derived from the identifier,
  and every other element is still there, unchanged and in the same order.
\<close>

theorem removal_success_removes_exactly_the_row:
  assumes "success result"
  shows "(getElementById (document w) (booking_row this) = Some r \<longrightarrow>
            r < length (document w) \<and>
            getAttribute (document w ! r) ''id'' = Some (booking_row this) \<and>
            document (snd (remove_booking_click True (Resolves result) this w))
              = take r (document w) @ drop (Suc r) (document w)) \<and>
         (getElementById (document w) (user_row this) = Some r \<longrightarrow>
            r < length (document w) \<and>
            getAttribute (document w ! r) ''id'' = Some (user_row this) \<and>
            document (snd (remove_user_click True (Resolves result) this w))
              = take r (document w) @ drop (Suc r) (document w))"
proof (intro conjI impI)
  assume "getElementById (document w) (booking_row this) = Some r"
  from remove_row_found [of "w\<lparr>network := n, dialogs := d\<rparr>" for n d, simplified, OF this]
  show "r < length (document w)"
    and "getAttribute (document w ! r) ''id'' = Some (booking_row this)"
    and "document (snd (remove_booking_click True (Resolves result) this w))
              = take r (document w) @ drop (Suc r) (document w)"
    by (simp_all add: remove_booking_click_success [OF assms])
next
  assume "getElementById (document w) (user_row this) = Some r"
  from remove_row_found [of "w\<lparr>network := n, dialogs := d\<rparr>" for n d, simplified, OF this]
  show "r < length (document w)"
    and "getAttribute (document w ! r) ''id'' = Some (user_row this)"
    and "document (snd (remove_user_click True (Resolves result) this w))
              = take r (document w) @ drop (Suc r) (document w)"
    by (simp_all add: remove_user_click_success [OF assms])
qed

theorem removal_success_removes_exactly_the_row_witness:
  "success thanks \<and>
   getElementById (document bookings_page) (booking_row (button [(''data-booking-id'', ''5'')])) = Some 1 \<and>
   document (snd (remove_booking_click True (Resolves thanks) (button [(''data-booking-id'', ''5'')]) bookings_page))
     = [html_element ''tr'' ''booking-row-4'' [], html_element ''tr'' ''booking-row-6'' []] \<and>
   getElementById (document users_page) (user_row (button [(''data-user-id'', ''1'')])) = Some 0 \<and>
   document (snd (remove_user_click True (Resolves thanks) (button [(''data-user-id'', ''1'')]) users_page))
     = [html_element ''tr'' ''user-row-2'' []]"
proof -
  have s: "success thanks"
    by (simp add: thanks_def)
  have b: "getElementById (document bookings_page) (booking_row (button [(''data-booking-id'', ''5'')])) = Some 1"
    by (simp add: bookings_page_def booking_row_def button_def template_def page_defs)
  have u: "getElementById (document users_page) (user_row (button [(''data-user-id'', ''1'')])) = Some 0"
    by (simp add: users_page_def user_row_def button_def template_def page_defs)
  have d: "document bookings_page = [html_element ''tr'' ''booking-row-4'' [],
             html_element ''tr'' ''booking-row-5'' [], html_element ''tr'' ''booking-row-6'' []]"
    "document users_page = [html_element ''tr'' ''user-row-1'' [], html_element ''tr'' ''user-row-2'' []]"
    by (simp_all add: bookings_page_def users_page_def fresh_page_def)
  from removal_success_removes_exactly_the_row [OF s, of bookings_page "button [(''data-booking-id'', ''5'')]" 1]
    removal_success_removes_exactly_the_row [OF s, of users_page "button [(''data-user-id'', ''1'')]" 0]
    s b u d
  show ?thesis by simp
qed

text \<open>
  C10. The same removal on a page with no element of the derived row id: the handler returns
  normally, the server's message has been shown in an alert, and the document is as it was.
\<close>

theorem removal_success_without_row_is_harmless:
  assumes "success result"
  shows "(element_by_id w (booking_row this) = None \<longrightarrow>
            fst (remove_booking_click True (Resolves result) this w) = Normal \<and>
            (\<exists>question. dialogs (snd (remove_booking_click True (Resolves result) this w))
                          = dialogs w @ [Confirm question, Alert (message result)]) \<and>
            document (snd (remove_booking_click True (Resolves result) this w)) = document w) \<and>
         (element_by_id w (user_row this) = None \<longrightarrow>
            fst (remove_user_click True (Resolves result) this w) = Normal \<and>
            (\<exists>question. dialogs (snd (remove_user_click True (Resolves result) this w))
                          = dialogs w @ [Confirm question, Alert (message result)]) \<and>
            document (snd (remove_user_click True (Resolves result) this w)) = document w)"
  by (simp add: remove_booking_click_success [OF assms] remove_user_click_success [OF assms]
        element_by_id_def remove_row_missing)


theorem removal_success_without_row_is_harmless_witness:
  "success thanks \<and>
   element_by_id bookings_page (booking_row (button [(''data-booking-id'', ''9'')])) = None \<and>
   element_by_id bookings_page (user_row (button [(''data-booking-id'', ''9'')])) = None \<and>
   fst (remove_booking_click True (Resolves thanks) (button [(''data-booking-id'', ''9'')]) bookings_page) = Normal \<and>
   document (snd (remove_booking_click True (Resolves thanks) (button [(''data-booking-id'', ''9'')]) bookings_page))
     = document bookings_page \<and>
   fst (remove_user_click True (Resolves thanks) (button [(''data-booking-id'', ''9'')]) bookings_page) = Normal \<and>
   document (snd (remove_user_click True (Resolves thanks) (button [(''data-booking-id'', ''9'')]) bookings_page))
     = document bookings_page"
proof -
  have s: "success thanks"
    by (simp add: thanks_def)
  have b: "element_by_id bookings_page (booking_row (button [(''data-booking-id'', ''9'')])) = None"
    by (simp add: bookings_page_def booking_row_def button_def template_def page_defs)
  have u: "element_by_id bookings_page (user_row (button [(''data-booking-id'', ''9'')])) = None"
    by (simp add: bookings_page_def user_row_def button_def template_def page_defs)
  from removal_success_without_row_is_harmless [OF s, of bookings_page "button [(''data-booking-id'', ''9'')]"] s b u
  show ?thesis by simp
qed





section \<open>What the copy button does\<close>

lemma copy_contact_click_document:
  "document (snd (copy_contact_click exec this w)) =
     (case getAttribute this ''data-target'' of
        None \<Rightarrow> document w
      | Some targetId \<Rightarrow>
          (case exec of
             ExecThrows err \<Rightarrow> document w
           | ExecReturns copied \<Rightarrow>
               (case getElementById (document w) (''copied-message-'' @ target_suffix targetId) of
                  None \<Rightarrow> document w
                | Some r \<Rightarrow> (document w)[r := (document w ! r)\<lparr>classList := classList (document w ! r) - {''d-none''}\<rparr>])))"
  by (auto simp add: copy_contact_click_def copy_contact_try_def removeChild_def platform_defs Let_def
        list_update_append nth_append dest: getElementById_bound
        split: option.splits exec_outcome.splits)

lemma copy_contact_click_completion:
  "fst (copy_contact_click exec this w) =
     (if getAttribute this ''data-target'' = None then Thrown TypeError else Normal)"
  by (auto simp add: copy_contact_click_def copy_contact_try_def removeChild_def platform_defs Let_def
        split: option.splits exec_outcome.splits)

text \<open>
  C9. After a click on a copy button, whether \<open>execCommand\<close> returned or threw, the
  document has the elements it had before, in the same places: at most the class list of the
  ``copied'' indicator has lost \<open>d-none\<close>. The temporary textarea is gone. Unless the
  button lacks \<open>data-target\<close> (then line 11 throws before the textarea is made), the
  handler returns normally, so the \<open>removeChild\<close> of the \<open>finally\<close> block did not fail.
\<close>

theorem copy_leaves_no_textarea:
  "(document (snd (copy_contact_click exec this w)) = document w \<or>
    (\<exists>r<length (document w).
       document (snd (copy_contact_click exec this w))
         = (document w)[r := (document w ! r)\<lparr>classList := classList (document w ! r) - {''d-none''}\<rparr>])) \<and>
   length (document (snd (copy_contact_click exec this w))) = length (document w) \<and>
   (getAttribute this ''data-target'' \<noteq> None \<longrightarrow> fst (copy_contact_click exec this w) = Normal)"
proof -
  have shape: "document (snd (copy_contact_click exec this w)) = document w \<or>
    (\<exists>r<length (document w).
       document (snd (copy_contact_click exec this w))
         = (document w)[r := (document w ! r)\<lparr>classList := classList (document w ! r) - {''d-none''}\<rparr>])"
    by (auto simp add: copy_contact_click_document dest: getElementById_bound
          split: option.splits exec_outcome.splits)
  then have "length (document (snd (copy_contact_click exec this w))) = length (document w)"
    by auto
  with shape show ?thesis
    by (simp add: copy_contact_click_completion)
qed


theorem copy_leaves_no_textarea_witness:
  "getAttribute (button [(''data-contact'', ''555-1234''), (''data-target'', ''contact-1'')]) ''data-target'' \<noteq> None \<and>
   fst (copy_contact_click (ExecThrows InvalidStateError)
          (button [(''data-contact'', ''555-1234''), (''data-target'', ''contact-1'')]) contacts_page) = Normal \<and>
   length (document (snd (copy_contact_click (ExecThrows InvalidStateError)
          (button [(''data-contact'', ''555-1234''), (''data-target'', ''contact-1'')]) contacts_page))) = 2"
proof -
  have t: "getAttribute (button [(''data-contact'', ''555-1234''), (''data-target'', ''contact-1'')]) ''data-target'' \<noteq> None"
    by (simp add: button_def getAttribute_def)
  have n: "length (document contacts_page) = 2"
    by (simp add: contacts_page_def fresh_page_def)
  from copy_leaves_no_textarea [of "ExecThrows InvalidStateError"
      "button [(''data-contact'', ''555-1234''), (''data-target'', ''contact-1'')]" contacts_page] t n
  show ?thesis by simp
qed

section \<open>What the parsers make of a field that is not a number\<close>

lemma StrWhiteSpaceChar_utf8: "StrWhiteSpaceChar = map utf8 white_code_points"
  by (simp add: StrWhiteSpaceChar_def white_code_points_def utf8_def char_of_def bit_Suc_0_iff)

lemma leading_white_Nil: "leading_white [] = 0"
  by (simp add: leading_white_def StrWhiteSpaceChar_def)

lemma leading_white_unit:
  "u \<in> set StrWhiteSpaceChar \<Longrightarrow> leading_white (u @ x) = length u"
  unfolding StrWhiteSpaceChar_def leading_white_def set_simps insert_iff empty_iff
  by (elim disjE FalseE) simp_all


lemma StrWhiteSpaceChar_hd:
  "u \<in> set StrWhiteSpaceChar \<Longrightarrow>
   hd u \<in> set [CHR 0x09, CHR 0x0A, CHR 0x0B, CHR 0x0C, CHR 0x0D, CHR 0x20,
               CHR 0xC2, CHR 0xE1, CHR 0xE2, CHR 0xE3, CHR 0xEF]"
  unfolding StrWhiteSpaceChar_def set_simps insert_iff empty_iff
  by (elim disjE FalseE) simp_all

lemma leading_white_take:
  assumes "leading_white s \<noteq> 0"
  shows "take (leading_white s) s \<in> set StrWhiteSpaceChar"
proof -
  from assms obtain u where u: "find (\<lambda>u. take (length u) s = u) StrWhiteSpaceChar = Some u"
    by (auto simp: leading_white_def split: option.splits)
  then have "u \<in> set StrWhiteSpaceChar" "take (length u) s = u"
    by (auto simp: find_Some_iff)
  with u show ?thesis
    by (simp add: leading_white_def)
qed

lemma trim_step: "leading_white s \<noteq> 0 \<Longrightarrow> trim_start s = trim_start (drop (leading_white s) s)"
  by (cases s) (simp_all add: leading_white_Nil drop_Cons')

lemma trim_stop: "leading_white s = 0 \<Longrightarrow> trim_start s = s"
  by (cases s) simp_all

lemma utf8_not_Nil: "utf8 cp \<noteq> []"
  by (simp add: utf8_def)

lemma white_space_Nil: "white_space []"
  unfolding white_space_def by (rule exI [of _ "[]"]) simp

lemma white_space_unit:
  assumes "u \<in> set StrWhiteSpaceChar" and "white_space ws"
  shows "white_space (u @ ws)"
proof -
  from assms(1) obtain cp where cp: "cp \<in> set white_code_points" "u = utf8 cp"
    by (auto simp: StrWhiteSpaceChar_utf8)
  from assms(2) obtain cps where cps: "set cps \<subseteq> set white_code_points" "ws = concat (map utf8 cps)"
    by (auto simp: white_space_def)
  from cp cps show ?thesis
    unfolding white_space_def by (intro exI [of _ "cp # cps"]) simp
qed

lemma trim_white: "white_space ws \<Longrightarrow> trim_start (ws @ x) = trim_start x"
proof -
  have "trim_start (concat (map utf8 cps) @ x) = trim_start x"
    if "set cps \<subseteq> set white_code_points" for cps
    using that
  proof (induction cps)
    case Nil
    then show ?case by simp
  next
    case (Cons cp cps)
    then have u: "utf8 cp \<in> set StrWhiteSpaceChar"
      by (simp add: StrWhiteSpaceChar_utf8)
    have "leading_white (utf8 cp @ concat (map utf8 cps) @ x) = length (utf8 cp)"
      by (rule leading_white_unit [OF u])
    then have "trim_start (utf8 cp @ concat (map utf8 cps) @ x) = trim_start (concat (map utf8 cps) @ x)"
      using trim_step [of "utf8 cp @ concat (map utf8 cps) @ x"] utf8_not_Nil [of cp] by simp
    with Cons show ?case by simp
  qed
  then show "white_space ws \<Longrightarrow> trim_start (ws @ x) = trim_start x"
    by (auto simp: white_space_def)
qed

lemma trim_decomp: "\<exists>ws. white_space ws \<and> s = ws @ trim_start s"
proof (induction s rule: trim_start.induct)
  case 1
  show ?case using white_space_Nil by simp
next
  case (2 c s)
  show ?case
  proof (cases "leading_white (c # s) = 0")
    case True
    then show ?thesis using white_space_Nil by (intro exI [of _ "[]"]) simp
  next
    case False
    define n where "n = leading_white (c # s)"
    from False have u: "take n (c # s) \<in> set StrWhiteSpaceChar"
      unfolding n_def by (rule leading_white_take)
    from False have n: "n \<noteq> 0" by (simp add: n_def)
    then have d: "drop n (c # s) = drop (n - 1) s"
      by (simp add: drop_Cons')
    from 2 False obtain ws where ws: "white_space ws" "drop (n - 1) s = ws @ trim_start (drop (n - 1) s)"
      by (auto simp: n_def)
    have t: "trim_start (c # s) = trim_start (drop (n - 1) s)"
      using False by (simp add: n_def)
    have "c # s = take n (c # s) @ drop n (c # s)"
      by simp
    also have "\<dots> = (take n (c # s) @ ws) @ trim_start (c # s)"
      using ws(2) d t by simp
    finally have "c # s = (take n (c # s) @ ws) @ trim_start (c # s)" .
    moreover have "white_space (take n (c # s) @ ws)"
      by (rule white_space_unit [OF u ws(1)])
    ultimately show ?thesis by blast
  qed
qed

lemma leading_white_numeral:
  assumes "c \<in> set ''.0123456789I'' \<or> c = CHR ''+'' \<or> c = CHR ''-''"
  shows "leading_white (c # r) = 0"
proof (rule ccontr)
  assume a: "leading_white (c # r) \<noteq> 0"
  then have "take (leading_white (c # r)) (c # r) \<in> set StrWhiteSpaceChar"
    by (rule leading_white_take)
  then have "hd (take (leading_white (c # r)) (c # r)) \<in> set [CHR 0x09, CHR 0x0A, CHR 0x0B, CHR 0x0C, CHR 0x0D, CHR 0x20,
               CHR 0xC2, CHR 0xE1, CHR 0xE2, CHR 0xE3, CHR 0xEF]"
    by (rule StrWhiteSpaceChar_hd)
  moreover have "hd (take (leading_white (c # r)) (c # r)) = c"
    using a by (cases "leading_white (c # r)") simp_all
  ultimately show False
    using assms by auto
qed


lemma after_white_space_and_sign_iff:
  assumes start: "\<And>t. P t \<Longrightarrow> \<exists>c r. t = c # r \<and> c \<in> set ''.0123456789I''"
  shows "after_white_space_and_sign P s \<longleftrightarrow>
         P (if take 1 (trim_start s) = ''+'' \<or> take 1 (trim_start s) = ''-''
            then drop 1 (trim_start s) else trim_start s)"
proof
  assume "after_white_space_and_sign P s"
  then obtain ws sgn t where s: "s = ws @ sgn @ t" and ws: "white_space ws"
    and sgn: "sgn = [] \<or> sgn = ''+'' \<or> sgn = ''-''" and t: "P t"
    by (auto simp: after_white_space_and_sign_def)
  from start [OF t] obtain c r where c: "t = c # r" "c \<in> set ''.0123456789I''"
    by blast
  have "leading_white (sgn @ t) = 0"
  proof (cases "sgn = []")
    case True
    have "leading_white (c # r) = 0"
      by (rule leading_white_numeral) (rule disjI1 [OF c(2)])
    with True c(1) show ?thesis by simp
  next
    case False
    with sgn have "sgn @ t = CHR ''+'' # t \<or> sgn @ t = CHR ''-'' # t"
      by auto
    then show ?thesis
      by (auto intro!: leading_white_numeral)
  qed
  then have "trim_start s = sgn @ t"
    using s ws by (simp add: trim_white trim_stop)
  moreover have "c \<noteq> CHR ''+''" "c \<noteq> CHR ''-''"
    using c(2) by auto
  ultimately show "P (if take 1 (trim_start s) = ''+'' \<or> take 1 (trim_start s) = ''-''
            then drop 1 (trim_start s) else trim_start s)"
    using sgn c(1) t by auto
next
  assume p: "P (if take 1 (trim_start s) = ''+'' \<or> take 1 (trim_start s) = ''-''
            then drop 1 (trim_start s) else trim_start s)"
  obtain ws where ws: "white_space ws" "s = ws @ trim_start s"
    using trim_decomp by blast
  show "after_white_space_and_sign P s"
  proof (cases "take 1 (trim_start s) = ''+'' \<or> take 1 (trim_start s) = ''-''")
    case True
    then have "s = ws @ take 1 (trim_start s) @ drop 1 (trim_start s)"
      using ws(2) by simp
    with True p ws(1) show ?thesis
      unfolding after_white_space_and_sign_def by (auto simp del: append_take_drop_id)
  next
    case False
    with p have "P (trim_start s)"
      by simp
    moreover have "s = ws @ [] @ trim_start s"
      using ws(2) by simp
    ultimately show ?thesis
      unfolding after_white_space_and_sign_def using ws(1) by blast
  qed
qed

lemma is_digit_10: "is_digit 10 c \<longleftrightarrow> decimal_digit c"
  by (auto simp add: is_digit_def digit_value_def digit_table_def decimal_digit_def split: if_splits)

lemma is_digit_16: "is_digit 16 c \<longleftrightarrow> hex_digit c"
  by (auto simp add: is_digit_def digit_value_def digit_table_def hex_digit_def split: if_splits)

lemma takeWhile_digit_Nil:
  "takeWhile (is_digit 10) U = [] \<longleftrightarrow> \<not> (case U of [] \<Rightarrow> False | d # _ \<Rightarrow> decimal_digit d)"
  "takeWhile (is_digit 16) U = [] \<longleftrightarrow> \<not> (case U of [] \<Rightarrow> False | d # _ \<Rightarrow> hex_digit d)"
  by (cases U; simp add: is_digit_10 is_digit_16)+

lemma integer_start_first:
  "integer_start t \<Longrightarrow> \<exists>c r. t = c # r \<and> c \<in> set ''.0123456789I''"
  by (cases t) (auto simp: integer_start_def decimal_digit_def split: if_splits)

lemma decimal_start_first:
  "decimal_start t \<Longrightarrow> \<exists>c r. t = c # r \<and> c \<in> set ''.0123456789I''"
  by (cases t) (auto simp: decimal_start_def decimal_digit_def split: list.splits)

lemma Number_value_not_NaN: "Number_value x \<noteq> NaN"
  by (simp add: Number_value_def Let_def)

lemma starts_integer_iff:
  "starts_integer s \<longleftrightarrow>
     integer_start (if take 1 (trim_start s) = ''+'' \<or> take 1 (trim_start s) = ''-''
                    then drop 1 (trim_start s) else trim_start s)"
  unfolding starts_integer_def
  by (rule after_white_space_and_sign_iff) (rule integer_start_first)

lemma starts_decimal_iff:
  "starts_decimal s \<longleftrightarrow>
     decimal_start (if take 1 (trim_start s) = ''+'' \<or> take 1 (trim_start s) = ''-''
                    then drop 1 (trim_start s) else trim_start s)"
  unfolding starts_decimal_def
  by (rule after_white_space_and_sign_iff) (rule decimal_start_first)

lemma parseInt_NaN_iff: "parseInt s = NaN \<longleftrightarrow> \<not> starts_integer s"
  by (simp add: starts_integer_iff parseInt_def Let_def Number_value_not_NaN integer_start_def
        takeWhile_digit_Nil)

lemma is_digit_10_eq: "is_digit 10 = decimal_digit"
  by (rule ext) (rule is_digit_10)

lemma dot_is_no_digit: "\<not> decimal_digit CHR ''.''"
  by (simp add: decimal_digit_def)

lemma decimal_start_parse:
  "decimal_start U \<longleftrightarrow>
     take 8 U = ''Infinity'' \<or>
     takeWhile (is_digit 10) U \<noteq> [] \<or>
     (if take 1 (dropWhile (is_digit 10) U) = ''.''
      then takeWhile (is_digit 10) (drop 1 (dropWhile (is_digit 10) U)) else []) \<noteq> []"
proof (cases U)
  case Nil
  then show ?thesis
    by (simp add: decimal_start_def)
next
  case (Cons a r)
  show ?thesis
  proof (cases "decimal_digit a")
    case True
    with Cons show ?thesis
      by (simp add: decimal_start_def is_digit_10_eq)
  next
    case False
    with Cons show ?thesis
      by (cases r) (auto simp add: decimal_start_def is_digit_10_eq dot_is_no_digit)
  qed
qed

lemma parseFloat_NaN_iff: "parseFloat s = NaN \<longleftrightarrow> \<not> starts_decimal s"
  by (simp add: starts_decimal_iff decimal_start_parse parseFloat_def Let_def Number_value_not_NaN)


text \<open>
  C7, as the code has it. The review handler checks nothing: on a page with the four elements
  of the form it sends its request whatever the fields hold, with the service id as
  \<open>parseInt\<close> reads it and the rating as \<open>parseFloat\<close> reads it. A service id that
  does not start, after white space and a sign, with an integer numeral parses to \<open>NaN\<close>,
  and so does a rating that does not start with a decimal numeral; \<open>JSON.stringify\<close>
  then writes the field as \<open>null\<close>. The body never carries \<open>NaN\<close>.
\<close>

theorem review_unparsable_number_goes_out_as_null:
  assumes "has_elements w review_fields"
    and "value_of w ''serviceIdReview'' = Some serviceId"
    and "value_of w ''reviewRating'' = Some rating"
    and "value_of w ''reviewComment'' = Some comment"
  shows "network (snd (reviewForm_submit net w)) = network w @
           [post_json ''/submit_review''
              (JObject [(''service_id'', JSON_stringify (JSNumber (parseInt serviceId))),
                        (''rating'', JSON_stringify (JSNumber (parseFloat rating))),
                        (''comment'', JString comment)])] \<and>
         (\<not> starts_integer serviceId \<longrightarrow>
            parseInt serviceId = NaN \<and> JSON_stringify (JSNumber (parseInt serviceId)) = JNull) \<and>
         (\<not> starts_decimal rating \<longrightarrow>
            parseFloat rating = NaN \<and> JSON_stringify (JSNumber (parseFloat rating)) = JNull)"
proof -
  have i: "parseInt serviceId = NaN" if "\<not> starts_integer serviceId"
    using that by (simp add: parseInt_NaN_iff)
  have f: "parseFloat rating = NaN" if "\<not> starts_decimal rating"
    using that by (simp add: parseFloat_NaN_iff)
  show ?thesis
    using assms by (simp add: reviewForm_submit_sends i f)
qed

declare bit_length.simps [simp del]

lemma bit_length_12: "bit_length 12 = 4"
proof -
  have "bit_length 0 = 0"
    by (simp add: bit_length.simps [of 0])
  then have "bit_length 1 = 1"
    by (simp add: bit_length.simps [of "Suc 0"])
  then have "bit_length 3 = 2"
    by (simp add: bit_length.simps [of 3])
  then have "bit_length 6 = 3"
    by (simp add: bit_length.simps [of 6])
  then show ?thesis
    by (simp add: bit_length.simps [of 12])
qed

lemma Number_value_12: "Number_value 12 = Finite 12"
proof -
  have e: "floor_log2 12 = 3"
    by (simp add: floor_log2_def bit_length_12)
  show ?thesis
    by (simp add: Number_value_def Let_def e pow2_def round_half_even_def)
qed

lemmas parse_defs =
  parseInt_def parseFloat_def leading_white_def StrWhiteSpaceChar_def
  is_digit_def digit_value_def digit_table_def digits_value_def

lemma parseInt_12abc: "parseInt ''12abc'' = Finite 12"
  by (simp add: parse_defs Let_def Number_value_12)

lemma parseFloat_abc: "parseFloat ''abc'' = NaN"
  by (simp add: parse_defs Let_def)

lemma parseInt_x7: "parseInt ''x7'' = NaN"
  by (simp add: parse_defs Let_def)

lemma parseFloat_five: "parseFloat ''five'' = NaN"
  by (simp add: parse_defs Let_def)

text \<open>
  C7 as it is worded fails twice on one submission. The service id \<open>12abc\<close> is not a
  number, yet \<open>parseInt\<close> reads its prefix and yields 12, not \<open>NaN\<close>. The rating
  \<open>abc\<close> does parse to \<open>NaN\<close>, but the body that goes out holds \<open>null\<close> in its place.
\<close>

theorem review_nan_forwarded_counterexample:
  "parseInt ''12abc'' = Finite 12 \<and> parseFloat ''abc'' = NaN \<and>
   map body (network (snd (reviewForm_submit (Resolves thanks) (review_page ''12abc'' ''abc'' ''Great''))))
     = [JObject [(''service_id'', JNumber 12), (''rating'', JNull), (''comment'', JString ''Great'')]]"
proof -
  have e: "has_elements (review_page ''12abc'' ''abc'' ''Great'') review_fields"
    by (simp add: review_page_def page_defs)
  have v: "value_of (review_page ''12abc'' ''abc'' ''Great'') ''serviceIdReview'' = Some ''12abc''"
    "value_of (review_page ''12abc'' ''abc'' ''Great'') ''reviewRating'' = Some ''abc''"
    "value_of (review_page ''12abc'' ''abc'' ''Great'') ''reviewComment'' = Some ''Great''"
    by (simp_all add: review_page_def value_of_def page_defs)
  have n: "network (review_page ''12abc'' ''abc'' ''Great'') = []"
    by (simp add: review_page_def fresh_page_def)
  show ?thesis
    using e v n by (simp add: reviewForm_submit_sends post_json_def parseInt_12abc parseFloat_abc)
qed

theorem review_unparsable_number_goes_out_as_null_witness:
  "has_elements (review_page ''x7'' ''five'' ''Great'') review_fields \<and>
   value_of (review_page ''x7'' ''five'' ''Great'') ''serviceIdReview'' = Some ''x7'' \<and>
   value_of (review_page ''x7'' ''five'' ''Great'') ''reviewRating'' = Some ''five'' \<and>
   value_of (review_page ''x7'' ''five'' ''Great'') ''reviewComment'' = Some ''Great'' \<and>
   \<not> starts_integer ''x7'' \<and> \<not> starts_decimal ''five'' \<and>
   parseInt ''x7'' = NaN \<and> parseFloat ''five'' = NaN \<and>
   network (snd (reviewForm_submit JsonRejects (review_page ''x7'' ''five'' ''Great'')))
     = [post_json ''/submit_review''
          (JObject [(''service_id'', JNull), (''rating'', JNull), (''comment'', JString ''Great'')])]"
proof -
  have e: "has_elements (review_page ''x7'' ''five'' ''Great'') review_fields"
    by (simp add: review_page_def page_defs)
  have v: "value_of (review_page ''x7'' ''five'' ''Great'') ''serviceIdReview'' = Some ''x7''"
    "value_of (review_page ''x7'' ''five'' ''Great'') ''reviewRating'' = Some ''five''"
    "value_of (review_page ''x7'' ''five'' ''Great'') ''reviewComment'' = Some ''Great''"
    by (simp_all add: review_page_def value_of_def page_defs)
  have n: "network (review_page ''x7'' ''five'' ''Great'') = []"
    by (simp add: review_page_def fresh_page_def)
  have p: "\<not> starts_integer ''x7''" "\<not> starts_decimal ''five''"
    using parseInt_x7 parseFloat_five by (simp_all add: parseInt_NaN_iff parseFloat_NaN_iff)
  from review_unparsable_number_goes_out_as_null [OF e v, of JsonRejects] e v p n
  show ?thesis by simp
qed


end
